theory Spec2Isabelle
  imports Complex_Main
begin

section \<open>Responses and collections\<close>

text \<open>
  A route handler ends in one response. The failures are kept apart by HTTP status (400
  with the list of validation messages, 400 with one message, 404, 500) and carry the
  messages that the source puts in the body; a success carries the document that is sent
  back. A handler wrapped in \<open>asyncHandler\<close> sends nothing when the database throws:
  the error is handed to the error middleware, which is not among the sources, so that
  outcome is kept as \<open>Thrown\<close>. The routes below are mounted behind the \<open>protect\<close> and
  \<open>admin\<close> middleware, which answer 401 or 403 themselves or pass the request on
  untouched; the handlers are modelled from the point where the request has been let
  through. Strings are ASCII.
\<close>

datatype db_error = CastError

datatype failure =
    ValidationFailed "string list"
  | BadRequest string
  | NotFound string
  | ServerError string
  | Thrown db_error

text \<open>
  A collection: the stored documents in insertion order, each under its identifier. In the
  collections of the database the identifier is the document's ObjectId, written as its
  24 lower-case hexadecimal digits.
\<close>

type_synonym 'd collection = "(string \<times> 'd) list"

definition findById :: "'d collection \<Rightarrow> string \<Rightarrow> 'd option" where
  "findById col i = map_of col i"

fun updateById :: "'d collection \<Rightarrow> string \<Rightarrow> ('d \<Rightarrow> 'd) \<Rightarrow> 'd collection" where
  "updateById [] i f = []"
| "updateById ((k, d) # col) i f =
     (if k = i then (k, f d) # col else (k, d) # updateById col i f)"

text \<open>
  The id of a \<open>findById...\<close> call is a string of the URL, and the database layer casts it
  to an ObjectId before it compares. A string of 24 hexadecimal digits is cast to the
  ObjectId with these digits, whatever the case of the letters. What becomes of any other
  string depends on the version of the database layer, which the sources do not fix: some
  versions read a string of 12 characters as 12 bytes, others refuse it. That part is the
  parameter \<open>castOther\<close>; \<open>None\<close> is a cast that throws.
\<close>

definition isHexDigit :: "char \<Rightarrow> bool" where
  "isHexDigit c = (c \<in> set ''0123456789abcdefABCDEF'')"

definition isHex24 :: "string \<Rightarrow> bool" where
  "isHex24 s = (length s = 24 \<and> list_all isHexDigit s)"

definition lowerHex :: "char \<Rightarrow> char" where
  "lowerHex c =
     (if c = CHR ''A'' then CHR ''a'' else if c = CHR ''B'' then CHR ''b''
      else if c = CHR ''C'' then CHR ''c'' else if c = CHR ''D'' then CHR ''d''
      else if c = CHR ''E'' then CHR ''e'' else if c = CHR ''F'' then CHR ''f'' else c)"

definition castObjectId :: "(string \<Rightarrow> string option) \<Rightarrow> string \<Rightarrow> string option" where
  "castObjectId castOther s = (if isHex24 s then Some (map lowerHex s) else castOther s)"

text \<open>
  \<open>Model.findByIdAndUpdate(id, update, { new: true })\<close>: throws when the id cannot be
  cast, gives \<open>null\<close> when no document has the cast id, and otherwise stores the update
  and gives the updated document.
\<close>

definition findByIdAndUpdate ::
  "(string \<Rightarrow> string option) \<Rightarrow> 'd collection \<Rightarrow> string \<Rightarrow> ('d \<Rightarrow> 'd) \<Rightarrow>
     db_error + ('d option \<times> 'd collection)" where
  "findByIdAndUpdate castOther col i f =
     (case castObjectId castOther i of
        None \<Rightarrow> Inl CastError
      | Some oid \<Rightarrow>
          (case findById col oid of
             None \<Rightarrow> Inr (None, col)
           | Some d \<Rightarrow> Inr (Some (f d), updateById col oid f)))"

section \<open>Admin: direct order status update\<close>

text \<open>
  The order documents as the admin routes read them. The route below writes
  \<open>orderStatus\<close> and nothing else, so the remaining fields of an order stay in the
  record's extension.
\<close>

record order_doc =
  orderNumber :: string
  orderStatus :: string
  paymentStatus :: string

text \<open>
  \<open>router.put('/orders/:id/status')\<close>: the status of the request body, a string, is
  written to the order as it is. A missing order is a 404; what the database throws is
  caught by the handler and answered with a 500.
\<close>

definition put_order_status ::
  "(string \<Rightarrow> string option) \<Rightarrow> 'a order_doc_scheme collection \<Rightarrow> string \<Rightarrow> string \<Rightarrow>
     (failure + 'a order_doc_scheme) \<times> 'a order_doc_scheme collection" where
  "put_order_status castOther orders i status =
     (case findByIdAndUpdate castOther orders i (\<lambda>ord. ord\<lparr>orderStatus := status\<rparr>) of
        Inl _ \<Rightarrow> (Inl (ServerError ''Error updating order status''), orders)
      | Inr (None, _) \<Rightarrow> (Inl (NotFound ''Order not found''), orders)
      | Inr (Some ord, orders') \<Rightarrow> (Inr ord, orders'))"

text \<open>
  The route has no notion of a transition. To say what it accepts, the happy path of the
  order lifecycle is taken from section 4.2 of the spec, with what a forward move along it
  is: the target stands later on the path than the current status. A move to the next
  status is a forward move; a move that is not forward is in particular not a move to the
  next status.
\<close>

definition happy_path :: "string list" where
  "happy_path = [''pending'', ''confirmed'', ''processing'', ''shipped'', ''delivered'']"

fun index_of :: "'a list \<Rightarrow> 'a \<Rightarrow> nat option" where
  "index_of [] x = None"
| "index_of (y # ys) x = (if x = y then Some 0 else map_option Suc (index_of ys x))"

definition forward_move :: "string \<Rightarrow> string \<Rightarrow> bool" where
  "forward_move cur new =
     (case (index_of happy_path cur, index_of happy_path new) of
        (Some a, Some b) \<Rightarrow> a < b
      | _ \<Rightarrow> False)"

section \<open>Categories\<close>

record category =
  name :: string
  description :: "string option"
  image :: "string option"
  isActive :: bool

subsection \<open>Field validators\<close>

text \<open>
  \<open>trim()\<close> removes white space at both ends. \<open>isLength\<close> counts characters.
  The image pattern is \<open>/^https?:\/\/.+/\<close>: the scheme, then at least one character
  that is not a line terminator.
\<close>

definition isSpace :: "char \<Rightarrow> bool" where
  "isSpace c = (c \<in> set [CHR '' '', CHR 0x09, CHR 0x0A, CHR 0x0B, CHR 0x0C, CHR 0x0D])"

definition trim :: "string \<Rightarrow> string" where
  "trim s = rev (dropWhile isSpace (rev (dropWhile isSpace s)))"

definition isLength :: "nat \<Rightarrow> nat \<Rightarrow> string \<Rightarrow> bool" where
  "isLength lo hi s = (lo \<le> length s \<and> length s \<le> hi)"

definition startsWith :: "string \<Rightarrow> string \<Rightarrow> bool" where
  "startsWith p s = (take (length p) s = p)"

definition dotPlus :: "string \<Rightarrow> bool" where
  "dotPlus s = (case s of [] \<Rightarrow> False | c # _ \<Rightarrow> c \<noteq> CHR 0x0A \<and> c \<noteq> CHR 0x0D)"

definition urlPattern :: "string \<Rightarrow> bool" where
  "urlPattern s =
     ((startsWith ''http://'' s \<and> dotPlus (drop 7 s)) \<or>
      (startsWith ''https://'' s \<and> dotPlus (drop 8 s)))"

subsection \<open>Status toggle\<close>




text \<open>
  The body's \<open>isActive\<close>, as it reaches the route, is any JSON value, or absent. Numbers
  are the integers, written in decimal.
\<close>

datatype json =
    JNull
  | JBool bool
  | JNum int
  | JStr string
  | JArr "json list"
  | JObj "(string \<times> json) list"

definition digitChar :: "nat \<Rightarrow> char" where
  "digitChar d = ''0123456789'' ! d"

function decimalNat :: "nat \<Rightarrow> string" where
  "decimalNat n =
     (if n < 10 then [digitChar n] else decimalNat (n div 10) @ [digitChar (n mod 10)])"
  by pat_completeness auto
termination
  by (relation "measure id") auto

declare decimalNat.simps [simp del]

definition decimal :: "int \<Rightarrow> string" where
  "decimal n = (if n < 0 then CHR ''-'' # decimalNat (nat (- n)) else decimalNat (nat n))"

fun joinWith :: "string \<Rightarrow> string list \<Rightarrow> string" where
  "joinWith sep [] = []"
| "joinWith sep [x] = x"
| "joinWith sep (x # y # ys) = x @ sep @ joinWith sep (y # ys)"

text \<open>
  JavaScript's \<open>String(value)\<close>; an array is its items joined by commas, with nothing
  written for \<open>null\<close>.
\<close>

fun jsString :: "json \<Rightarrow> string" where
  "jsString JNull = ''null''"
| "jsString (JBool b) = (if b then ''true'' else ''false'')"
| "jsString (JNum n) = decimal n"
| "jsString (JStr s) = s"
| "jsString (JArr xs) = joinWith '','' (map (\<lambda>x. if x = JNull then [] else jsString x) xs)"
| "jsString (JObj fs) = ''[object Object]''"

text \<open>
  \<open>body('isActive').isBoolean()\<close>: the validation library turns the value into a string
  (nothing for a missing value and for \<open>null\<close>) and accepts the four strings below. For a
  value that is not an array this is the same in every version of the library. How an
  array is judged (item by item, or by its first item) differs between versions that the
  sources do not fix, so the verdict on an array is the parameter \<open>arrayRule\<close>.
\<close>

definition evString :: "json \<Rightarrow> string" where
  "evString v = (if v = JNull then [] else jsString v)"

definition isBooleanString :: "string \<Rightarrow> bool" where
  "isBooleanString s = (s \<in> set [''true'', ''false'', ''1'', ''0''])"

definition isBoolean :: "(json list \<Rightarrow> bool) \<Rightarrow> json option \<Rightarrow> bool" where
  "isBoolean arrayRule v =
     (case v of
        None \<Rightarrow> isBooleanString []
      | Some (JArr xs) \<Rightarrow> arrayRule xs
      | Some x \<Rightarrow> isBooleanString (evString x))"




subsection \<open>Creation\<close>

text \<open>
  The body of \<open>POST /api/categories\<close>: each field is present or not.
\<close>

record category_body =
  body_name :: "string option"
  body_description :: "string option"
  body_image :: "string option"

text \<open>
  The validation chains run first and write their sanitised (trimmed) values back to the
  body. The name is required; description and image are \<open>optional()\<close> and checked
  only when present. The image's custom check sees the trimmed value and lets the empty
  string pass.
\<close>

definition sanitize_body :: "category_body \<Rightarrow> category_body" where
  "sanitize_body b =
     \<lparr>body_name = map_option trim (body_name b),
      body_description = map_option trim (body_description b),
      body_image = map_option trim (body_image b)\<rparr>"

definition create_errors :: "category_body \<Rightarrow> string list" where
  "create_errors b =
     (case body_name b of
        Some s \<Rightarrow> if isLength 2 50 s then [] else [''Name must be 2-50 chars'']
      | None \<Rightarrow> [''Name must be 2-50 chars'']) @
     (case body_description b of
        Some s \<Rightarrow> if isLength 0 300 s then [] else [''Description too long'']
      | None \<Rightarrow> []) @
     (case body_image b of
        Some s \<Rightarrow> if s \<noteq> [] \<and> \<not> urlPattern s then [''Image must be a valid URL''] else []
      | None \<Rightarrow> [])"

text \<open>
  \<open>categoryData\<close>: the trimmed name, and description and image only when they are
  non-empty after trimming.
\<close>

definition nonEmptyTrimmed :: "string option \<Rightarrow> string option" where
  "nonEmptyTrimmed v =
     (case v of
        None \<Rightarrow> None
      | Some s \<Rightarrow> if s \<noteq> [] \<and> trim s \<noteq> [] then Some (trim s) else None)"

text \<open>
  \<open>Category.findOne({ name })\<close> gives the first stored category with exactly this name.
\<close>

definition findOneByName :: "category collection \<Rightarrow> string \<Rightarrow> category option" where
  "findOneByName cats n = map_option snd (find (\<lambda>(k, c). name c = n) cats)"

text \<open>
  \<open>Category.create(categoryData)\<close> stores a new document. The identifier the database
  gives it and the schema's default for \<open>isActive\<close> are parameters, since the schema is
  not part of the route file. The one failure modelled is the duplicate-key error (code
  11000) of an identifier that is already stored.
\<close>

datatype insert_error = DuplicateKey

definition Category_create ::
  "category collection \<Rightarrow> string \<Rightarrow> category \<Rightarrow> insert_error + category collection" where
  "Category_create cats new_id c =
     (if new_id \<in> set (map fst cats) then Inl DuplicateKey else Inr (cats @ [(new_id, c)]))"

definition post_category ::
  "category collection \<Rightarrow> string \<Rightarrow> bool \<Rightarrow> category_body \<Rightarrow>
     (failure + category) \<times> category collection" where
  "post_category cats new_id default_active raw =
     (let b = sanitize_body raw in
      case (create_errors b, body_name b) of
        ([], Some n) \<Rightarrow>
          (let c = \<lparr>name = trim n,
                    description = nonEmptyTrimmed (body_description b),
                    image = nonEmptyTrimmed (body_image b),
                    isActive = default_active\<rparr>
           in case findOneByName cats (name c) of
                Some _ \<Rightarrow> (Inl (BadRequest ''Category already exists''), cats)
              | None \<Rightarrow>
                  (case Category_create cats new_id c of
                     Inl DuplicateKey \<Rightarrow> (Inl (BadRequest ''Category name already exists''), cats)
                   | Inr cats' \<Rightarrow> (Inr c, cats')))
      | (errors, _) \<Rightarrow> (Inl (ValidationFailed errors), cats))"

text \<open>Names are unique when no two stored categories carry the same name.\<close>

definition names_unique :: "category collection \<Rightarrow> bool" where
  "names_unique cats = distinct (map (\<lambda>(k, c). name c) cats)"

section \<open>Coupon evaluator\<close>

text \<open>
  Modelled from the spec: the coupon routes and the Coupon schema (\<open>routes/coupons.js\<close>,
  \<open>models/Coupon.js\<close>) are not among the sources, so the coupon of section 3 and the
  evaluator of section 4.1 are written from the spec's words. Amounts are rational
  numbers, times are numbers, and the coupon carries its usage counters (one entry of
  \<open>usedBy\<close> per use).
\<close>

datatype coupon_kind = Percentage | Fixed

record coupon =
  code :: string
  discount :: rat
  kind :: coupon_kind
  categories :: "string list"
  minOrderAmount :: rat
  maxDiscount :: "rat option"
  validFrom :: nat
  validUntil :: nat
  usageLimit :: "nat option"
  perUserLimit :: "nat option"
  usedBy :: "string list"
  couponActive :: bool
  isFirstTimeOnly :: bool

record cart_item =
  item_id :: string
  item_category :: string
  item_price :: rat
  item_quantity :: nat

datatype rejection =
    NotActive
  | OutsideValidity
  | NotFirstOrder
  | BelowMinimumOrder
  | NoApplicableItem
  | UsageLimitExceeded
  | UserLimitExceeded

datatype evaluation = Valid rat | Rejected rejection

text \<open>
  Modelled from the spec: the discountable base is the order amount, or the value of the
  matching cart items when the coupon names categories.
\<close>

definition matching_items :: "coupon \<Rightarrow> cart_item list \<Rightarrow> cart_item list" where
  "matching_items c cart = filter (\<lambda>it. item_category it \<in> set (categories c)) cart"

definition cart_value :: "cart_item list \<Rightarrow> rat" where
  "cart_value cart = (\<Sum>it\<leftarrow>cart. item_price it * of_nat (item_quantity it))"

definition discountable_base :: "coupon \<Rightarrow> cart_item list \<Rightarrow> rat \<Rightarrow> rat" where
  "discountable_base c cart orderAmount =
     (if categories c = [] then orderAmount else cart_value (matching_items c cart))"

text \<open>
  Modelled from the spec: the discount of section 4.1, a percentage of the base capped at
  \<open>maxDiscount\<close> or the fixed amount capped at the base, rounded half up to two decimals.
\<close>

definition round_half_up :: "rat \<Rightarrow> rat" where
  "round_half_up x = of_int \<lfloor>x * 100 + 1 / 2\<rfloor> / 100"

definition compute_discount :: "coupon \<Rightarrow> rat \<Rightarrow> rat" where
  "compute_discount c base =
     round_half_up
       (case kind c of
          Percentage \<Rightarrow>
            (case maxDiscount c of
               None \<Rightarrow> base * discount c / 100
             | Some cap \<Rightarrow> min (base * discount c / 100) cap)
        | Fixed \<Rightarrow> min (discount c) base)"

text \<open>
  Modelled from the spec: the six checks of section 4.1 in their order; the first that
  fails gives the reason. A user without an identity has no uses on record.
\<close>

definition min_order_check :: "coupon \<Rightarrow> rat \<Rightarrow> bool" where
  "min_order_check c orderAmount = (minOrderAmount c \<le> orderAmount)"

definition user_uses :: "coupon \<Rightarrow> string option \<Rightarrow> nat" where
  "user_uses c userId = (case userId of None \<Rightarrow> 0 | Some u \<Rightarrow> count_list (usedBy c) u)"

definition under_limit :: "nat option \<Rightarrow> nat \<Rightarrow> bool" where
  "under_limit bound n = (case bound of None \<Rightarrow> True | Some b \<Rightarrow> n < b)"

definition evaluate ::
  "nat \<Rightarrow> coupon option \<Rightarrow> cart_item list \<Rightarrow> rat \<Rightarrow> string option \<Rightarrow> nat option \<Rightarrow> evaluation" where
  "evaluate now coupon cart orderAmount userId userOrderCount =
     (case coupon of
        None \<Rightarrow> Rejected NotActive
      | Some c \<Rightarrow>
          if \<not> couponActive c then Rejected NotActive
          else if \<not> (validFrom c \<le> now \<and> now \<le> validUntil c) then Rejected OutsideValidity
          else if isFirstTimeOnly c \<and> userOrderCount \<noteq> None \<and> userOrderCount \<noteq> Some 0
            then Rejected NotFirstOrder
          else if \<not> min_order_check c orderAmount then Rejected BelowMinimumOrder
          else if categories c \<noteq> [] \<and> matching_items c cart = [] then Rejected NoApplicableItem
          else if \<not> under_limit (usageLimit c) (length (usedBy c)) then Rejected UsageLimitExceeded
          else if \<not> under_limit (perUserLimit c) (user_uses c userId) then Rejected UserLimitExceeded
          else Valid (compute_discount c (discountable_base c cart orderAmount)))"

text \<open>
  Modelled from the spec: the checks of section 4.1 that stand before the minimum-order
  check (1 to 3), and those that stand after it (5 and 6).
\<close>

definition earlier_checks :: "nat \<Rightarrow> coupon \<Rightarrow> nat option \<Rightarrow> bool" where
  "earlier_checks now c userOrderCount =
     (couponActive c \<and> validFrom c \<le> now \<and> now \<le> validUntil c \<and>
      (isFirstTimeOnly c \<longrightarrow> userOrderCount = None \<or> userOrderCount = Some 0))"

definition later_checks :: "coupon \<Rightarrow> cart_item list \<Rightarrow> string option \<Rightarrow> bool" where
  "later_checks c cart userId =
     ((categories c = [] \<or> matching_items c cart \<noteq> []) \<and>
      under_limit (usageLimit c) (length (usedBy c)) \<and>
      under_limit (perUserLimit c) (user_uses c userId))"

section \<open>Order state machine: cancellation request\<close>

text \<open>
  Modelled from the spec: the order routes and the Order schema (\<open>routes/orders.js\<close>,
  \<open>models/Order.js\<close>) are not among the sources, so the order of section 3, its embedded
  cancel/return request and the customer's \<open>requestCancel\<close> of section 4.2 are written
  from the spec's words.
\<close>

datatype order_status =
  Pending | Confirmed | Processing | Shipped | Delivered | Cancelled | Returned | Refunded

datatype payment_status = PaymentPending | Paid | PaymentFailed | PaymentRefunded

datatype request_kind = Cancel | Return

datatype request_status = RequestPending | RequestApproved | RequestRejected

record request =
  requestKind :: request_kind
  reason :: string
  requestDescription :: string
  requestedAt :: nat
  requestStatus :: request_status
  processedAt :: "nat option"
  processedBy :: "string option"
  adminNotes :: "string option"

record line_item =
  product :: string
  size :: string
  unitPrice :: rat
  quantity :: nat

record order =
  number :: string
  owner :: string
  items :: "line_item list"
  shippingAddress :: string
  paymentMethod :: string
  payment :: payment_status
  status :: order_status
  couponCode :: "string option"
  orderDiscount :: rat
  total :: rat
  request :: "request option"

datatype order_error =
    ValidationError
  | NotFoundError
  | InvalidStateError
  | InvalidTransitionError
  | WindowExpiredError

text \<open>
  Modelled from the spec: the statuses in which a cancellation may be requested, what it
  is for an order to hold a pending request, and the request that \<open>requestCancel\<close>
  creates.
\<close>

definition before_shipment :: "order_status \<Rightarrow> bool" where
  "before_shipment s = (s = Pending \<or> s = Confirmed \<or> s = Processing)"

definition has_pending_request :: "order \<Rightarrow> bool" where
  "has_pending_request ord =
     (case request ord of None \<Rightarrow> False | Some r \<Rightarrow> requestStatus r = RequestPending)"

definition new_cancel_request :: "nat \<Rightarrow> string \<Rightarrow> string \<Rightarrow> request" where
  "new_cancel_request now why descr =
     \<lparr>requestKind = Cancel, reason = why, requestDescription = descr, requestedAt = now,
      requestStatus = RequestPending, processedAt = None, processedBy = None,
      adminNotes = None\<rparr>"

text \<open>
  Modelled from the spec: \<open>requestCancel(orderId, reason, description)\<close>, with the time
  of the request as a parameter.
\<close>

definition requestCancel ::
  "order collection \<Rightarrow> nat \<Rightarrow> string \<Rightarrow> string \<Rightarrow> string \<Rightarrow> order_error + order collection" where
  "requestCancel orders now orderId why descr =
     (case findById orders orderId of
        None \<Rightarrow> Inl NotFoundError
      | Some ord \<Rightarrow>
          if before_shipment (status ord) \<and> \<not> has_pending_request ord
          then Inr (updateById orders orderId
                      (\<lambda>ord. ord\<lparr>request := Some (new_cancel_request now why descr)\<rparr>))
          else Inl InvalidStateError)"

section \<open>Examples\<close>

text \<open>Concrete collections and requests for the worked examples below.\<close>

definition example_orders :: "order_doc collection" where
  "example_orders =
     [(''64f8a1b2c3d4e5f6a7b8c9d0'',
       \<lparr>orderNumber = ''VB1001'', orderStatus = ''delivered'', paymentStatus = ''paid''\<rparr>),
      (''64f8a1b2c3d4e5f6a7b8c9d1'',
       \<lparr>orderNumber = ''VB1002'', orderStatus = ''cancelled'', paymentStatus = ''refunded''\<rparr>)]"

definition example_categories :: "category collection" where
  "example_categories =
     [(''64f8a1b2c3d4e5f6a7b8c9e0'',
       \<lparr>name = ''Makhana'', description = Some ''Roasted fox nuts'', image = None,
        isActive = True\<rparr>),
      (''64f8a1b2c3d4e5f6a7b8c9e1'',
       \<lparr>name = ''Chips'', description = None, image = Some ''https://cdn.example/chips.png'',
        isActive = False\<rparr>)]"

text \<open>
  Two database layers: one that refuses every string that is not 24 hexadecimal digits,
  and one that reads a string of 12 characters as 12 bytes. And two ways to judge an
  array: every item must be accepted, or the first item decides.
\<close>

definition castNothing :: "string \<Rightarrow> string option" where
  "castNothing s = None"

definition hexOfChar :: "char \<Rightarrow> string" where
  "hexOfChar c =
     [''0123456789abcdef'' ! (of_char c div 16), ''0123456789abcdef'' ! (of_char c mod 16)]"

definition castTwelve :: "string \<Rightarrow> string option" where
  "castTwelve s = (if length s = 12 then Some (concat (map hexOfChar s)) else None)"



definition example_coupon :: coupon where
  "example_coupon =
     \<lparr>code = ''SAVE50'', discount = 50, kind = Fixed, categories = [],
      minOrderAmount = 500, maxDiscount = None, validFrom = 10, validUntil = 20,
      usageLimit = Some 3, perUserLimit = Some 1, usedBy = [''u7''], couponActive = True,
      isFirstTimeOnly = True\<rparr>"

definition example_order :: "order_status \<Rightarrow> order" where
  "example_order s =
     \<lparr>number = ''VB1003'', owner = ''u1'',
      items = [\<lparr>product = ''p1'', size = ''100g'', unitPrice = 299, quantity = 2\<rparr>],
      shippingAddress = ''123 Main St, Mumbai'', paymentMethod = ''card'', payment = Paid,
      status = s, couponCode = None, orderDiscount = 0, total = 598, request = None\<rparr>"

section \<open>Collections: what an update touches\<close>

lemma findById_updateById:
  "findById (updateById col i f) j =
     (if j = i then map_option f (findById col i) else findById col j)"
  by (induction col) (auto simp: findById_def)

lemma keys_updateById: "map fst (updateById col i f) = map fst col"
  by (induction col) auto

lemma castObjectId_hex24: "isHex24 i \<Longrightarrow> castObjectId castOther i = Some (map lowerHex i)"
  by (simp add: castObjectId_def)

lemma id_examples:
  "isHex24 ''64f8a1b2c3d4e5f6a7b8c9d0''" "isHex24 ''64F8A1B2C3D4E5F6A7B8C9D1''"
  "isHex24 ''64f8a1b2c3d4e5f6a7b8c9d2''" "isHex24 ''64F8A1B2C3D4E5F6A7B8C9E0''"
  "isHex24 ''64f8a1b2c3d4e5f6a7b8c9e2''"
  "\<not> isHex24 ''abc''" "\<not> isHex24 ''abcdefghijkl''" "\<not> isHex24 ''0x64f8a1b2c3d4e5f6a7b8c9''"
  by (simp_all add: isHex24_def isHexDigit_def)

section \<open>Admin order status update accepts every target\<close>

lemma put_order_status_cases:
  "put_order_status castOther orders i target =
     (case castObjectId castOther i of
        None \<Rightarrow> (Inl (ServerError ''Error updating order status''), orders)
      | Some oid \<Rightarrow>
          (case findById orders oid of
             None \<Rightarrow> (Inl (NotFound ''Order not found''), orders)
           | Some ord \<Rightarrow>
               (Inr (ord\<lparr>orderStatus := target\<rparr>),
                updateById orders oid (\<lambda>ord. ord\<lparr>orderStatus := target\<rparr>))))"
  by (simp add: put_order_status_def findByIdAndUpdate_def split: option.splits)

text \<open>
  Claim C1, as the code has it. The admin's direct status update consults no transition
  table. The id of the request is cast to an ObjectId; a string of 24 hexadecimal digits
  always is, in either letter case. For an order that exists under the cast id, every
  requested status is written to the order, whatever the current status is: the response
  carries the order with the new status, the stored order differs from the old one in
  \<open>orderStatus\<close> only, and no other order and no identifier changes. The update fails
  only when no order has the cast id (not found) or the id cannot be cast (server error),
  and then the collection is unchanged.
\<close>

theorem put_order_status_any_target:
  "(castObjectId castOther i = Some oid \<and> findById orders oid = Some ord \<longrightarrow>
      fst (put_order_status castOther orders i target) = Inr (ord\<lparr>orderStatus := target\<rparr>) \<and>
      findById (snd (put_order_status castOther orders i target)) oid =
        Some (ord\<lparr>orderStatus := target\<rparr>) \<and>
      (\<forall>j. j \<noteq> oid \<longrightarrow>
          findById (snd (put_order_status castOther orders i target)) j = findById orders j) \<and>
      map fst (snd (put_order_status castOther orders i target)) = map fst orders) \<and>
   (castObjectId castOther i = Some oid \<and> findById orders oid = None \<longrightarrow>
      put_order_status castOther orders i target = (Inl (NotFound ''Order not found''), orders)) \<and>
   (castObjectId castOther i = None \<longrightarrow>
      put_order_status castOther orders i target =
        (Inl (ServerError ''Error updating order status''), orders)) \<and>
   (isHex24 i \<longrightarrow> castObjectId castOther i = Some (map lowerHex i))"
  by (simp add: put_order_status_cases findById_updateById keys_updateById castObjectId_hex24)

theorem put_order_status_any_target_witness:
  "fst (put_order_status castNothing example_orders ''64F8A1B2C3D4E5F6A7B8C9D1'' ''shipped'') =
     Inr \<lparr>orderNumber = ''VB1002'', orderStatus = ''shipped'', paymentStatus = ''refunded''\<rparr> \<and>
   findById (snd (put_order_status castNothing example_orders ''64F8A1B2C3D4E5F6A7B8C9D1''
       ''shipped'')) ''64f8a1b2c3d4e5f6a7b8c9d1'' =
     Some \<lparr>orderNumber = ''VB1002'', orderStatus = ''shipped'', paymentStatus = ''refunded''\<rparr> \<and>
   findById (snd (put_order_status castNothing example_orders ''64F8A1B2C3D4E5F6A7B8C9D1''
       ''shipped'')) ''64f8a1b2c3d4e5f6a7b8c9d0'' =
     Some \<lparr>orderNumber = ''VB1001'', orderStatus = ''delivered'', paymentStatus = ''paid''\<rparr> \<and>
   put_order_status castNothing example_orders ''64f8a1b2c3d4e5f6a7b8c9d2'' ''shipped'' =
     (Inl (NotFound ''Order not found''), example_orders) \<and>
   put_order_status castTwelve example_orders ''abcdefghijkl'' ''shipped'' =
     (Inl (NotFound ''Order not found''), example_orders) \<and>
   put_order_status castNothing example_orders ''abcdefghijkl'' ''shipped'' =
     (Inl (ServerError ''Error updating order status''), example_orders)"
proof -
  have found: "findById example_orders ''64f8a1b2c3d4e5f6a7b8c9d1'' =
      Some \<lparr>orderNumber = ''VB1002'', orderStatus = ''cancelled'', paymentStatus = ''refunded''\<rparr>"
    by (simp add: findById_def example_orders_def)
  have other: "findById example_orders ''64f8a1b2c3d4e5f6a7b8c9d0'' =
      Some \<lparr>orderNumber = ''VB1001'', orderStatus = ''delivered'', paymentStatus = ''paid''\<rparr>"
    by (simp add: findById_def example_orders_def)
  have missing: "findById example_orders ''64f8a1b2c3d4e5f6a7b8c9d2'' = None"
    by (simp add: findById_def example_orders_def)
  have c1: "castObjectId castNothing ''64F8A1B2C3D4E5F6A7B8C9D1'' = Some ''64f8a1b2c3d4e5f6a7b8c9d1''"
    and c2: "castObjectId castNothing ''64f8a1b2c3d4e5f6a7b8c9d2'' = Some ''64f8a1b2c3d4e5f6a7b8c9d2''"
    by (simp_all add: castObjectId_def id_examples lowerHex_def)
  have c3: "castObjectId castTwelve ''abcdefghijkl'' = Some ''6162636465666768696a6b6c''"
    by (simp add: castObjectId_def id_examples castTwelve_def hexOfChar_def)
  have c4: "castObjectId castNothing ''abcdefghijkl'' = None"
    by (simp add: castObjectId_def id_examples castNothing_def)
  have missing12: "findById example_orders ''6162636465666768696a6b6c'' = None"
    by (simp add: findById_def example_orders_def)
  show ?thesis
    using put_order_status_any_target
            [of castNothing "''64F8A1B2C3D4E5F6A7B8C9D1''" "''64f8a1b2c3d4e5f6a7b8c9d1''"
                example_orders _ "''shipped''"]
          put_order_status_any_target
            [of castNothing "''64f8a1b2c3d4e5f6a7b8c9d2''" "''64f8a1b2c3d4e5f6a7b8c9d2''"
                example_orders _ "''shipped''"]
          put_order_status_any_target
            [of castTwelve "''abcdefghijkl''" "''6162636465666768696a6b6c''"
                example_orders _ "''shipped''"]
          put_order_status_any_target
            [of castNothing "''abcdefghijkl''" _ example_orders _ "''shipped''"]
    by (simp add: found other missing missing12 c1 c2 c3 c4)
qed

text \<open>
  Claim C1, as stated, fails: an order that is already delivered is moved back to pending.
  The move is not a forward move along the happy path, and the update succeeds, whichever
  database layer casts the id.
\<close>

theorem put_order_status_backward_counterexample:
  "\<not> forward_move ''delivered'' ''pending'' \<and>
   findById example_orders ''64f8a1b2c3d4e5f6a7b8c9d0'' =
     Some \<lparr>orderNumber = ''VB1001'', orderStatus = ''delivered'', paymentStatus = ''paid''\<rparr> \<and>
   fst (put_order_status castNothing example_orders ''64f8a1b2c3d4e5f6a7b8c9d0'' ''pending'') =
     Inr \<lparr>orderNumber = ''VB1001'', orderStatus = ''pending'', paymentStatus = ''paid''\<rparr> \<and>
   findById (snd (put_order_status castNothing example_orders ''64f8a1b2c3d4e5f6a7b8c9d0''
       ''pending'')) ''64f8a1b2c3d4e5f6a7b8c9d0'' =
     Some \<lparr>orderNumber = ''VB1001'', orderStatus = ''pending'', paymentStatus = ''paid''\<rparr> \<and>
   fst (put_order_status castTwelve example_orders ''64f8a1b2c3d4e5f6a7b8c9d0'' ''pending'') =
     Inr \<lparr>orderNumber = ''VB1001'', orderStatus = ''pending'', paymentStatus = ''paid''\<rparr>"
  by (simp add: put_order_status_cases castObjectId_def id_examples lowerHex_def findById_def
      example_orders_def forward_move_def happy_path_def)

section \<open>Category status toggle\<close>











lemma isBoolean_absent: "\<not> isBoolean arrayRule None"
  by (simp add: isBoolean_def isBooleanString_def)






section \<open>Category creation and unique names\<close>

lemma trim_trim: "trim (trim s) = trim s"
proof -
  define t where "t = dropWhile isSpace s"
  define u where "u = dropWhile isSpace (rev t)"
  have u_idem: "dropWhile isSpace u = u"
    by (simp add: u_def)
  have "dropWhile isSpace (rev u) = rev u"
  proof (cases "u = []")
    case True
    then show ?thesis by simp
  next
    case False
    then have "rev t \<noteq> []"
      by (auto simp: u_def)
    then have tne: "t \<noteq> []"
      by simp
    have "rev t = takeWhile isSpace (rev t) @ u"
      by (simp add: u_def)
    then have "last u = last (rev t)"
      using False by (metis last_appendR)
    also have "\<dots> = hd t"
      using tne by (simp add: last_rev)
    finally have "last u = hd t" .
    moreover have "\<not> isSpace (hd t)"
      using tne unfolding t_def by (rule hd_dropWhile)
    ultimately have "\<not> isSpace (hd (rev u))"
      using False by (simp add: hd_rev)
    then show ?thesis
      by (simp add: dropWhile_eq_self_iff)
  qed
  then show ?thesis
    by (simp add: trim_def t_def[symmetric] u_def[symmetric] u_idem)
qed

lemma findOneByName_None:
  "findOneByName cats n = None \<longleftrightarrow> n \<notin> set (map (\<lambda>(k, c). name c) cats)"
  by (auto simp: findOneByName_def find_None_iff)

lemma post_category_cases:
  "post_category cats new_id dflt raw =
     (case (create_errors (sanitize_body raw), body_name raw) of
        ([], Some s) \<Rightarrow>
          (let c = \<lparr>name = trim s,
                    description = nonEmptyTrimmed (map_option trim (body_description raw)),
                    image = nonEmptyTrimmed (map_option trim (body_image raw)),
                    isActive = dflt\<rparr>
           in if findOneByName cats (trim s) \<noteq> None
              then (Inl (BadRequest ''Category already exists''), cats)
              else if new_id \<in> set (map fst cats)
              then (Inl (BadRequest ''Category name already exists''), cats)
              else (Inr c, cats @ [(new_id, c)]))
      | (errors, _) \<Rightarrow> (Inl (ValidationFailed errors), cats))"
  by (cases "create_errors (sanitize_body raw)"; cases "body_name raw")
     (auto simp: post_category_def Let_def sanitize_body_def Category_create_def trim_trim
           split: option.splits insert_error.splits)

lemma create_errors_name:
  "create_errors (sanitize_body raw) = [] \<Longrightarrow>
     \<exists>s. body_name raw = Some s \<and> isLength 2 50 (trim s)"
  by (cases "body_name raw") (auto simp: create_errors_def sanitize_body_def split: if_splits)

lemma names_unique_snoc:
  "names_unique (cats @ [(k, c)]) \<longleftrightarrow> names_unique cats \<and> findOneByName cats (name c) = None"
  by (auto simp: names_unique_def findOneByName_None)

text \<open>
  Claim C10, as the code has it. A creation request that passes the field validation and
  whose trimmed name is the name of a stored category is answered with
  \<open>Category already exists\<close>, and the collection is unchanged. A request that fails the
  field validation is answered with the validation messages, whether or not its name is
  taken, and the collection is unchanged. Whatever the request, names that were unique
  before the operation are unique after it.
\<close>

theorem post_category_duplicate_name:
  "(create_errors (sanitize_body raw) = [] \<and> body_name raw = Some s \<and>
      (\<exists>k c. (k, c) \<in> set cats \<and> name c = trim s) \<longrightarrow>
      post_category cats new_id dflt raw = (Inl (BadRequest ''Category already exists''), cats)) \<and>
   (create_errors (sanitize_body raw) \<noteq> [] \<longrightarrow>
      post_category cats new_id dflt raw =
        (Inl (ValidationFailed (create_errors (sanitize_body raw))), cats)) \<and>
   (names_unique cats \<longrightarrow> names_unique (snd (post_category cats new_id dflt raw)))"
proof (intro conjI impI)
  assume h: "create_errors (sanitize_body raw) = [] \<and> body_name raw = Some s \<and>
      (\<exists>k c. (k, c) \<in> set cats \<and> name c = trim s)"
  then have "trim s \<in> set (map (\<lambda>(k, c). name c) cats)"
    by force
  then have "findOneByName cats (trim s) \<noteq> None"
    by (simp add: findOneByName_None)
  then show "post_category cats new_id dflt raw =
               (Inl (BadRequest ''Category already exists''), cats)"
    using h by (simp add: post_category_cases)
next
  assume "create_errors (sanitize_body raw) \<noteq> []"
  then show "post_category cats new_id dflt raw =
        (Inl (ValidationFailed (create_errors (sanitize_body raw))), cats)"
    by (cases "create_errors (sanitize_body raw)") (simp_all add: post_category_cases)
next
  assume u: "names_unique cats"
  show "names_unique (snd (post_category cats new_id dflt raw))"
  proof (cases "create_errors (sanitize_body raw)")
    case Nil
    then obtain s' where "body_name raw = Some s'"
      using create_errors_name by blast
    then show ?thesis
      using u Nil by (auto simp: post_category_cases Let_def names_unique_snoc)
  next
    case (Cons e es)
    then show ?thesis
      using u by (simp add: post_category_cases)
  qed
qed

theorem post_category_duplicate_name_witness:
  "post_category example_categories ''64f8a1b2c3d4e5f6a7b8c9e2'' True
     \<lparr>body_name = Some ''  Makhana '', body_description = Some ''Fox nuts'',
      body_image = Some ''https://cdn.example/makhana.png''\<rparr> =
     (Inl (BadRequest ''Category already exists''), example_categories) \<and>
   post_category example_categories ''64f8a1b2c3d4e5f6a7b8c9e2'' True
     \<lparr>body_name = Some ''M'', body_description = None, body_image = None\<rparr> =
     (Inl (ValidationFailed [''Name must be 2-50 chars'']), example_categories) \<and>
   names_unique (snd (post_category example_categories ''64f8a1b2c3d4e5f6a7b8c9e2'' True
     \<lparr>body_name = Some ''Namkeen'', body_description = None, body_image = None\<rparr>))"
proof -
  have t: "trim ''  Makhana '' = ''Makhana''"
    by (simp add: trim_def isSpace_def)
  have ok: "create_errors (sanitize_body
      \<lparr>body_name = Some ''  Makhana '', body_description = Some ''Fox nuts'',
       body_image = Some ''https://cdn.example/makhana.png''\<rparr>) = []"
    by (simp add: create_errors_def sanitize_body_def trim_def isSpace_def isLength_def
        urlPattern_def startsWith_def dotPlus_def)
  have bad: "create_errors (sanitize_body
      \<lparr>body_name = Some ''M'', body_description = None, body_image = None\<rparr>) =
      [''Name must be 2-50 chars'']"
    by (simp add: create_errors_def sanitize_body_def trim_def isSpace_def isLength_def)
  have stored: "\<exists>k c. (k, c) \<in> set example_categories \<and> name c = ''Makhana''"
    by (rule exI [of _ "''64f8a1b2c3d4e5f6a7b8c9e0''"],
        rule exI [of _ "\<lparr>name = ''Makhana'', description = Some ''Roasted fox nuts'',
                       image = None, isActive = True\<rparr>"])
       (simp add: example_categories_def)
  have uniq: "names_unique example_categories"
    by (simp add: names_unique_def example_categories_def)
  show ?thesis
    using post_category_duplicate_name
            [of "\<lparr>body_name = Some ''  Makhana '', body_description = Some ''Fox nuts'',
                  body_image = Some ''https://cdn.example/makhana.png''\<rparr>"
                "''  Makhana ''" example_categories "''64f8a1b2c3d4e5f6a7b8c9e2''" True]
          post_category_duplicate_name
            [of "\<lparr>body_name = Some ''M'', body_description = None, body_image = None\<rparr>"
                "''M''" example_categories "''64f8a1b2c3d4e5f6a7b8c9e2''" True]
          post_category_duplicate_name
            [of "\<lparr>body_name = Some ''Namkeen'', body_description = None, body_image = None\<rparr>"
                "''Namkeen''" example_categories "''64f8a1b2c3d4e5f6a7b8c9e2''" True]
    by (simp add: t ok bad stored uniq)
qed

text \<open>
  Claim C10, as stated, fails for a request whose trimmed name is taken and whose image is
  not a URL: the answer is the validation failure, not \<open>Category already exists\<close>.
\<close>

theorem post_category_invalid_image_counterexample:
  "trim ''  Makhana '' = ''Makhana'' \<and>
   findOneByName example_categories ''Makhana'' =
     Some \<lparr>name = ''Makhana'', description = Some ''Roasted fox nuts'', image = None,
           isActive = True\<rparr> \<and>
   post_category example_categories ''64f8a1b2c3d4e5f6a7b8c9e2'' True
     \<lparr>body_name = Some ''  Makhana '', body_description = None,
      body_image = Some ''ftp://files.example/makhana.png''\<rparr> =
     (Inl (ValidationFailed [''Image must be a valid URL'']), example_categories)"
  by (simp add: post_category_def create_errors_def sanitize_body_def trim_def isSpace_def
      isLength_def urlPattern_def startsWith_def dotPlus_def findOneByName_def
      example_categories_def)

section \<open>Coupon evaluator: the minimum-order check\<close>

text \<open>
  Claim C6. The evaluator's minimum-order check passes exactly when the order amount is at
  least the coupon's \<open>minOrderAmount\<close>: the evaluator gives the below-minimum rejection
  exactly when the earlier checks pass and the amount is smaller, and when all other
  checks pass the coupon is valid exactly when the amount is at least the minimum. A
  coupon with minimum 500 that passes the other checks rejects 499 and accepts 500.
\<close>

theorem minimum_order_check:
  "(min_order_check c orderAmount \<longleftrightarrow> minOrderAmount c \<le> orderAmount) \<and>
   (evaluate now (Some c) cart orderAmount userId userOrderCount = Rejected BelowMinimumOrder
      \<longleftrightarrow> earlier_checks now c userOrderCount \<and> orderAmount < minOrderAmount c) \<and>
   (earlier_checks now c userOrderCount \<and> later_checks c cart userId \<longrightarrow>
      ((\<exists>d. evaluate now (Some c) cart orderAmount userId userOrderCount = Valid d)
         \<longleftrightarrow> minOrderAmount c \<le> orderAmount)) \<and>
   (earlier_checks now c userOrderCount \<and> later_checks c cart userId \<and>
      minOrderAmount c = 500 \<longrightarrow>
      evaluate now (Some c) cart 499 userId userOrderCount = Rejected BelowMinimumOrder \<and>
      (\<exists>d. evaluate now (Some c) cart 500 userId userOrderCount = Valid d))"
  by (auto simp: evaluate_def min_order_check_def earlier_checks_def later_checks_def)

theorem minimum_order_check_witness:
  "evaluate 15 (Some example_coupon) [] 499 (Some ''u1'') (Some 0) = Rejected BelowMinimumOrder \<and>
   (\<exists>d. evaluate 15 (Some example_coupon) [] 500 (Some ''u1'') (Some 0) = Valid d)"
proof -
  have e: "earlier_checks 15 example_coupon (Some 0)"
    by (simp add: earlier_checks_def example_coupon_def)
  have l: "later_checks example_coupon [] (Some ''u1'')"
    by (simp add: later_checks_def example_coupon_def under_limit_def user_uses_def)
  have m: "minOrderAmount example_coupon = 500"
    by (simp add: example_coupon_def)
  show ?thesis
    using minimum_order_check [of example_coupon 500 15 "[]" "Some ''u1''" "Some 0"] e l m
    by simp
qed

section \<open>Cancellation request\<close>

lemma before_shipment_iff:
  "before_shipment s \<longleftrightarrow> s = Pending \<or> s = Confirmed \<or> s = Processing"
  by (simp add: before_shipment_def)

lemma requestCancel_accepts:
  assumes "findById orders orderId = Some ord"
    and "before_shipment (status ord)" and "\<not> has_pending_request ord"
  shows "requestCancel orders now orderId why descr =
           Inr (updateById orders orderId
                  (\<lambda>ord. ord\<lparr>request := Some (new_cancel_request now why descr)\<rparr>))"
  using assms by (simp add: requestCancel_def)

lemma requestCancel_refuses:
  assumes "findById orders orderId = Some ord"
    and "\<not> before_shipment (status ord) \<or> has_pending_request ord"
  shows "requestCancel orders now orderId why descr = Inl InvalidStateError"
  using assms by (auto simp: requestCancel_def)

text \<open>
  Claim C4. For an order that exists, \<open>requestCancel\<close> succeeds exactly when the order is
  pending, confirmed or processing and holds no pending request. It then stores a pending
  request of type cancel with the given reason and description on that order, leaves the
  order's status and every other order as they were, and it fails with
  \<open>InvalidStateError\<close> when the order is shipped, delivered or cancelled or a request is
  already pending.
\<close>

theorem requestCancel_allowed:
  "findById orders orderId = Some ord \<longrightarrow>
     ((\<exists>orders'. requestCancel orders now orderId why descr = Inr orders') \<longleftrightarrow>
        (status ord = Pending \<or> status ord = Confirmed \<or> status ord = Processing) \<and>
        \<not> has_pending_request ord) \<and>
     ((status ord = Pending \<or> status ord = Confirmed \<or> status ord = Processing) \<and>
        \<not> has_pending_request ord \<longrightarrow>
        (\<exists>orders' r.
            requestCancel orders now orderId why descr = Inr orders' \<and>
            findById orders' orderId = Some (ord\<lparr>request := Some r\<rparr>) \<and>
            status (ord\<lparr>request := Some r\<rparr>) = status ord \<and>
            requestKind r = Cancel \<and> requestStatus r = RequestPending \<and>
            reason r = why \<and> requestDescription r = descr \<and> requestedAt r = now \<and>
            (\<forall>j. j \<noteq> orderId \<longrightarrow> findById orders' j = findById orders j))) \<and>
     (status ord = Shipped \<or> status ord = Delivered \<or> status ord = Cancelled \<or>
        has_pending_request ord \<longrightarrow>
        requestCancel orders now orderId why descr = Inl InvalidStateError)"
proof (intro impI conjI)
  assume f: "findById orders orderId = Some ord"
  show "(\<exists>orders'. requestCancel orders now orderId why descr = Inr orders') \<longleftrightarrow>
        (status ord = Pending \<or> status ord = Confirmed \<or> status ord = Processing) \<and>
        \<not> has_pending_request ord"
  proof (cases "before_shipment (status ord) \<and> \<not> has_pending_request ord")
    case True
    then show ?thesis
      using requestCancel_accepts [OF f, of now why descr] by (simp add: before_shipment_iff)
  next
    case False
    then have "requestCancel orders now orderId why descr = Inl InvalidStateError"
      using requestCancel_refuses [OF f] by blast
    then show ?thesis
      using False by (simp add: before_shipment_iff)
  qed
next
  assume f: "findById orders orderId = Some ord"
    and ok: "(status ord = Pending \<or> status ord = Confirmed \<or> status ord = Processing) \<and>
        \<not> has_pending_request ord"
  let ?r = "new_cancel_request now why descr"
  let ?orders' = "updateById orders orderId (\<lambda>ord. ord\<lparr>request := Some ?r\<rparr>)"
  have "requestCancel orders now orderId why descr = Inr ?orders'"
    using ok requestCancel_accepts [OF f] by (simp add: before_shipment_iff)
  moreover have "findById ?orders' orderId = Some (ord\<lparr>request := Some ?r\<rparr>)"
    using f by (simp add: findById_updateById)
  moreover have "\<forall>j. j \<noteq> orderId \<longrightarrow> findById ?orders' j = findById orders j"
    by (simp add: findById_updateById)
  moreover have "requestKind ?r = Cancel \<and> requestStatus ?r = RequestPending \<and>
      reason ?r = why \<and> requestDescription ?r = descr \<and> requestedAt ?r = now"
    by (simp add: new_cancel_request_def)
  moreover have "status (ord\<lparr>request := Some ?r\<rparr>) = status ord"
    by simp
  ultimately show "\<exists>orders' r.
            requestCancel orders now orderId why descr = Inr orders' \<and>
            findById orders' orderId = Some (ord\<lparr>request := Some r\<rparr>) \<and>
            status (ord\<lparr>request := Some r\<rparr>) = status ord \<and>
            requestKind r = Cancel \<and> requestStatus r = RequestPending \<and>
            reason r = why \<and> requestDescription r = descr \<and> requestedAt r = now \<and>
            (\<forall>j. j \<noteq> orderId \<longrightarrow> findById orders' j = findById orders j)"
    by blast
next
  assume f: "findById orders orderId = Some ord"
    and no: "status ord = Shipped \<or> status ord = Delivered \<or> status ord = Cancelled \<or>
        has_pending_request ord"
  then have "\<not> before_shipment (status ord) \<or> has_pending_request ord"
    by (auto simp: before_shipment_iff)
  then show "requestCancel orders now orderId why descr = Inl InvalidStateError"
    by (rule requestCancel_refuses [OF f])
qed

theorem requestCancel_allowed_witness:
  "(\<exists>orders'. requestCancel [(''o1'', example_order Processing)] 7 ''o1'' ''changed_mind''
       ''Ordered twice'' = Inr orders') \<and>
   requestCancel [(''o1'', example_order Shipped)] 7 ''o1'' ''changed_mind'' ''Ordered twice'' =
     Inl InvalidStateError"
proof -
  have f: "findById [(''o1'', example_order s)] ''o1'' = Some (example_order s)" for s
    by (simp add: findById_def)
  have p: "\<not> has_pending_request (example_order s)" for s
    by (simp add: has_pending_request_def example_order_def)
  have s: "status (example_order s) = s" for s
    by (simp add: example_order_def)
  show ?thesis
    using requestCancel_allowed
            [of "[(''o1'', example_order Processing)]" "''o1''" "example_order Processing" 7
                "''changed_mind''" "''Ordered twice''"]
          requestCancel_allowed
            [of "[(''o1'', example_order Shipped)]" "''o1''" "example_order Shipped" 7
                "''changed_mind''" "''Ordered twice''"]
    by (simp add: f p s)
qed


end
